theory Spec2Isabelle
  imports Complex_Main "HOL-Library.Char_ord" "HOL-Library.List_Lexorder"
    "HOL-Library.Product_Lexorder"
begin

section \<open>Values of the script\<close>

text \<open>
  The script \<^verbatim>\<open>script.js\<close> reads a CSV file with \<^verbatim>\<open>d3.csv\<close>, filters its rows, and
  draws a grouped bar chart of mean values per age group and sex or ethnicity.

  A property of a parsed CSV row is a string, or \<^verbatim>\<open>undefined\<close> when the file has no such
  column. The text fields of the script's own rows are therefore strings or
  \<^verbatim>\<open>undefined\<close>; \<^verbatim>\<open>null\<close> is kept as a third possibility, since the ethnicity filter guards
  against both. Strings are lists of 8-bit characters, standing for code units below 256.
\<close>

datatype field = Undefined | Null | Str string

text \<open>
  A JavaScript number is an IEEE 754 double: \<open>Num x\<close> is the finite double whose value is
  the real \<open>x\<close> (\<open>Num 0\<close> is \<^verbatim>\<open>+0\<close>), \<open>NegZero\<close> is \<^verbatim>\<open>-0\<close>. Every operation rounds its exact
  result to the nearest double, ties to the even mantissa, as \<open>round_double\<close> does.
\<close>

datatype number = Num real | NegZero | PosInf | NegInf | NaN

datatype error = TypeError

text \<open>\<open>ilog2 n\<close> is the integer part of the binary logarithm of \<open>n \<ge> 1\<close>.\<close>

function ilog2 :: "int \<Rightarrow> int" where
  "ilog2 n = (if n \<le> 1 then 0 else 1 + ilog2 (n div 2))"
  by pat_completeness auto
termination
  by (relation "measure nat") auto

declare ilog2.simps [simp del]

text \<open>The integer part of the binary logarithm of a positive real.\<close>

definition floor_log2 :: "real \<Rightarrow> int" where
  "floor_log2 a =
     (if 1 \<le> a then ilog2 \<lfloor>a\<rfloor>
      else if \<lceil>1 / a\<rceil> \<le> 1 then 0 else - (1 + ilog2 (\<lceil>1 / a\<rceil> - 1)))"

definition pow2 :: "int \<Rightarrow> real" where
  "pow2 e = (if 0 \<le> e then 2 ^ nat e else 1 / 2 ^ nat (- e))"

definition round_half_even :: "real \<Rightarrow> int" where
  "round_half_even y =
     (if y - of_int \<lfloor>y\<rfloor> < 1 / 2 then \<lfloor>y\<rfloor>
      else if 1 / 2 < y - of_int \<lfloor>y\<rfloor> then \<lfloor>y\<rfloor> + 1
      else if even \<lfloor>y\<rfloor> then \<lfloor>y\<rfloor> else \<lfloor>y\<rfloor> + 1)"

text \<open>
  Rounding a positive real to a double. The doubles near \<open>a\<close> are the multiples of
  \<open>2 ^ e\<close>, where \<open>e\<close> is the exponent of \<open>a\<close> less the 52 bits of the mantissa, and is
  - 1074 for the subnormal numbers.
\<close>

definition quantum_exponent :: "real \<Rightarrow> int" where
  "quantum_exponent a = max (- 1074) (floor_log2 a - 52)"

definition round_magnitude :: "real \<Rightarrow> real" where
  "round_magnitude a =
     of_int (round_half_even (a / pow2 (quantum_exponent a))) * pow2 (quantum_exponent a)"

definition signed_zero :: "bool \<Rightarrow> number" where
  "signed_zero neg = (if neg then NegZero else Num 0)"

definition signed_infinity :: "bool \<Rightarrow> number" where
  "signed_infinity neg = (if neg then NegInf else PosInf)"

text \<open>
  Rounding a real to a double: a magnitude of \<open>2 ^ 1024\<close> or more after rounding is an
  infinity, and a result of 0 keeps the sign of the real.
\<close>

definition round_double :: "real \<Rightarrow> number" where
  "round_double x =
     (if x = 0 then Num 0
      else if 2 ^ 1024 \<le> round_magnitude \<bar>x\<bar> then signed_infinity (x < 0)
      else if round_magnitude \<bar>x\<bar> = 0 then signed_zero (x < 0)
      else if 0 < x then Num (round_magnitude \<bar>x\<bar>)
      else Num (- round_magnitude \<bar>x\<bar>))"

fun is_negative :: "number \<Rightarrow> bool" where
  "is_negative (Num a) = (a < 0)"
| "is_negative NegZero = True"
| "is_negative NegInf = True"
| "is_negative PosInf = False"
| "is_negative NaN = False"

fun is_infinite :: "number \<Rightarrow> bool" where
  "is_infinite PosInf = True"
| "is_infinite NegInf = True"
| "is_infinite _ = False"

fun is_zero :: "number \<Rightarrow> bool" where
  "is_zero (Num a) = (a = 0)"
| "is_zero NegZero = True"
| "is_zero _ = False"

text \<open>The real value of a finite number; it is not used on the others.\<close>

fun finite_value :: "number \<Rightarrow> real" where
  "finite_value (Num a) = a"
| "finite_value _ = 0"

text \<open>\<^verbatim>\<open>x + y\<close>: the exact sum, rounded. A sum of 0 is \<^verbatim>\<open>+0\<close>, but \<^verbatim>\<open>-0 + -0\<close> is \<^verbatim>\<open>-0\<close>.\<close>

definition js_add :: "number \<Rightarrow> number \<Rightarrow> number" where
  "js_add x y =
     (if x = NaN \<or> y = NaN then NaN
      else if is_infinite x then (if is_infinite y \<and> x \<noteq> y then NaN else x)
      else if is_infinite y then y
      else if x = NegZero \<and> y = NegZero then NegZero
      else round_double (finite_value x + finite_value y))"

text \<open>\<^verbatim>\<open>x / y\<close>: the exact quotient, rounded, with the sign of zeros and infinities.\<close>

definition js_div :: "number \<Rightarrow> number \<Rightarrow> number" where
  "js_div x y =
     (if x = NaN \<or> y = NaN then NaN
      else if is_infinite x then
        (if is_infinite y then NaN else signed_infinity (is_negative x \<noteq> is_negative y))
      else if is_infinite y then signed_zero (is_negative x \<noteq> is_negative y)
      else if is_zero y then
        (if is_zero x then NaN else signed_infinity (is_negative x \<noteq> is_negative y))
      else if is_zero x then signed_zero (is_negative x \<noteq> is_negative y)
      else round_double (finite_value x / finite_value y))"

text \<open>\<^verbatim>\<open>x >= y\<close> on numbers: false as soon as one side is \<^verbatim>\<open>NaN\<close>.\<close>

fun js_ge :: "number \<Rightarrow> number \<Rightarrow> bool" where
  "js_ge NaN _ = False"
| "js_ge _ NaN = False"
| "js_ge PosInf _ = True"
| "js_ge _ NegInf = True"
| "js_ge _ PosInf = False"
| "js_ge NegInf _ = False"
| "js_ge x y = (finite_value y \<le> finite_value x)"

section \<open>The unary plus on a string\<close>

text \<open>
  \<^verbatim>\<open>+d.Data_Value\<close> converts a string to a number: white space is trimmed, the empty
  string is 0, a decimal literal (sign, digits, fraction, exponent), \<^verbatim>\<open>Infinity\<close> or an
  unsigned binary, octal or hexadecimal integer literal is its value rounded to a double,
  and anything else is \<^verbatim>\<open>NaN\<close>.
\<close>

definition is_white_space :: "char \<Rightarrow> bool" where
  "is_white_space c \<longleftrightarrow>
     (of_char c :: nat) \<in> {9, 10, 11, 12, 13, 32, 160}"

definition trim :: "string \<Rightarrow> string" where
  "trim s = rev (dropWhile is_white_space (rev (dropWhile is_white_space s)))"

definition digit_of :: "char \<Rightarrow> nat option" where
  "digit_of c =
     (let n = (of_char c :: nat) in
      if 48 \<le> n \<and> n \<le> 57 then Some (n - 48)
      else if 97 \<le> n \<and> n \<le> 102 then Some (n - 87)
      else if 65 \<le> n \<and> n \<le> 70 then Some (n - 55)
      else None)"

fun digits_value :: "nat \<Rightarrow> int \<Rightarrow> string \<Rightarrow> int option" where
  "digits_value b acc [] = Some acc"
| "digits_value b acc (c # cs) =
     (case digit_of c of
        None \<Rightarrow> None
      | Some d \<Rightarrow> if d < b then digits_value b (acc * int b + int d) cs else None)"

definition nat_literal :: "nat \<Rightarrow> string \<Rightarrow> int option" where
  "nat_literal b s = (if s = [] then None else digits_value b 0 s)"

definition is_exp_char :: "char \<Rightarrow> bool" where
  "is_exp_char c \<longleftrightarrow> c = CHR ''e'' \<or> c = CHR ''E''"

definition mantissa :: "string \<Rightarrow> real option" where
  "mantissa s =
     (let ip = takeWhile (\<lambda>c. c \<noteq> CHR ''.'') s;
          rest = dropWhile (\<lambda>c. c \<noteq> CHR ''.'') s
      in if rest = [] then map_option real_of_int (nat_literal 10 ip)
         else let fp = tl rest in
           if ip = [] \<and> fp = [] then None
           else (case (digits_value 10 0 ip, digits_value 10 0 fp) of
                   (Some i, Some f) \<Rightarrow>
                     Some (real_of_int i + real_of_int f / 10 ^ length fp)
                 | _ \<Rightarrow> None))"

definition exponent :: "string \<Rightarrow> int option" where
  "exponent s =
     (case s of
        [] \<Rightarrow> None
      | c # cs \<Rightarrow>
          if c = CHR ''-'' then map_option uminus (nat_literal 10 cs)
          else if c = CHR ''+'' then nat_literal 10 cs
          else nat_literal 10 s)"

definition unsigned_decimal :: "string \<Rightarrow> number" where
  "unsigned_decimal s =
     (if s = ''Infinity'' then PosInf
      else let m = takeWhile (\<lambda>c. \<not> is_exp_char c) s;
               rest = dropWhile (\<lambda>c. \<not> is_exp_char c) s
           in case mantissa m of
                None \<Rightarrow> NaN
              | Some x \<Rightarrow>
                  if rest = [] then round_double x
                  else (case exponent (tl rest) of
                          None \<Rightarrow> NaN
                        | Some e \<Rightarrow>
                            if 0 \<le> e then round_double (x * 10 ^ nat e)
                            else round_double (x / 10 ^ nat (- e))))"

fun js_negate :: "number \<Rightarrow> number" where
  "js_negate (Num x) = (if x = 0 then NegZero else Num (- x))"
| "js_negate NegZero = Num 0"
| "js_negate PosInf = NegInf"
| "js_negate NegInf = PosInf"
| "js_negate NaN = NaN"

definition radix_prefix :: "string \<Rightarrow> nat option" where
  "radix_prefix s =
     (case s of
        c0 # c1 # _ \<Rightarrow>
          if c0 \<noteq> CHR ''0'' then None
          else if c1 = CHR ''x'' \<or> c1 = CHR ''X'' then Some 16
          else if c1 = CHR ''o'' \<or> c1 = CHR ''O'' then Some 8
          else if c1 = CHR ''b'' \<or> c1 = CHR ''B'' then Some 2
          else None
      | _ \<Rightarrow> None)"

definition to_number :: "string \<Rightarrow> number" where
  "to_number str =
     (let s = trim str in
      if s = [] then Num 0
      else case radix_prefix s of
             Some b \<Rightarrow>
               (case nat_literal b (drop 2 s) of
                  None \<Rightarrow> NaN
                | Some n \<Rightarrow> round_double (real_of_int n))
           | None \<Rightarrow>
               if hd s = CHR ''-'' then js_negate (unsigned_decimal (tl s))
               else if hd s = CHR ''+'' then unsigned_decimal (tl s)
               else unsigned_decimal s)"

text \<open>The unary plus on a property that may be absent: \<^verbatim>\<open>+undefined\<close> is \<^verbatim>\<open>NaN\<close>.\<close>

definition unary_plus :: "string option \<Rightarrow> number" where
  "unary_plus v = (case v of None \<Rightarrow> NaN | Some s \<Rightarrow> to_number s)"

section \<open>Loading and filtering\<close>

text \<open>
  A row as \<^verbatim>\<open>d3.csv\<close> hands it to the row accessor: the seven columns the script
  reads, \<open>None\<close> when the file has no such column.
\<close>

record csv_row =
  Class_col :: "string option"
  Topic_col :: "string option"
  StratificationCategory1 :: "string option"
  Stratification1 :: "string option"
  StratificationCategory2 :: "string option"
  Stratification2 :: "string option"
  Data_Value :: "string option"

text \<open>The script's row. \<open>Value\<close> is \<open>None\<close> for \<^verbatim>\<open>null\<close>.\<close>

record row =
  Class :: field
  Topic :: field
  StratCat1 :: field
  Strat1 :: field
  StratCat2 :: field
  Strat2 :: field
  Value :: "number option"

definition property :: "string option \<Rightarrow> field" where
  "property v = (case v of None \<Rightarrow> Undefined | Some s \<Rightarrow> Str s)"

definition row_accessor :: "csv_row \<Rightarrow> row" where
  "row_accessor d =
     \<lparr> Class = property (Class_col d),
       Topic = property (Topic_col d),
       StratCat1 = property (StratificationCategory1 d),
       Strat1 = property (Stratification1 d),
       StratCat2 = property (StratificationCategory2 d),
       Strat2 = property (Stratification2 d),
       Value = (if Data_Value d = Some [] then None else Some (unary_plus (Data_Value d))) \<rparr>"

definition excluded_topic :: string where
  "excluded_topic =
     ''Talked with health care professional about subjective cognitive decline or memory loss''"

definition base_pred :: "row \<Rightarrow> bool" where
  "base_pred d \<longleftrightarrow>
     Class d = Str ''Cognitive Decline'' \<and>
     Topic d \<noteq> Str excluded_topic \<and>
     Strat1 d \<noteq> Str ''Overall'' \<and>
     Value d \<noteq> None"

definition base :: "row list \<Rightarrow> row list" where
  "base rows = filter base_pred rows"

section \<open>Library operations the chart uses\<close>

text \<open>
  \<^verbatim>\<open>String.prototype.includes\<close>: whether the second string occurs in the first. Called on
  \<^verbatim>\<open>undefined\<close> or \<^verbatim>\<open>null\<close> it raises a \<^verbatim>\<open>TypeError\<close>.
\<close>

fun starts_with :: "string \<Rightarrow> string \<Rightarrow> bool" where
  "starts_with _ [] = True"
| "starts_with [] (_ # _) = False"
| "starts_with (c # cs) (p # ps) = (c = p \<and> starts_with cs ps)"

fun string_includes :: "string \<Rightarrow> string \<Rightarrow> bool" where
  "string_includes [] p = (p = [])"
| "string_includes (c # cs) p = (starts_with (c # cs) p \<or> string_includes cs p)"

definition js_includes :: "field \<Rightarrow> string \<Rightarrow> error + bool" where
  "js_includes v p = (case v of Str s \<Rightarrow> Inr (string_includes s p) | _ \<Rightarrow> Inl TypeError)"

text \<open>Truthiness of a text field: \<^verbatim>\<open>undefined\<close>, \<^verbatim>\<open>null\<close> and the empty string are falsy.\<close>

fun truthy :: "field \<Rightarrow> bool" where
  "truthy Undefined = False"
| "truthy Null = False"
| "truthy (Str s) = (s \<noteq> [])"

text \<open>\<^verbatim>\<open>Array.prototype.filter\<close> with a callback that may raise.\<close>

fun js_filter :: "('a \<Rightarrow> error + bool) \<Rightarrow> 'a list \<Rightarrow> error + 'a list" where
  "js_filter p [] = Inr []"
| "js_filter p (x # xs) =
     (case p x of
        Inl e \<Rightarrow> Inl e
      | Inr b \<Rightarrow>
          (case js_filter p xs of
             Inl e \<Rightarrow> Inl e
           | Inr ys \<Rightarrow> Inr (if b then x # ys else ys)))"

text \<open>
  A \<^verbatim>\<open>Map\<close> is an association list in insertion order, with unique keys. The grouping
  loop of \<^verbatim>\<open>d3.rollup\<close> looks the key of each value up, and either pushes the value on the
  group found or sets a new one-element group, which goes last.
\<close>

fun group_add :: "('k \<times> 'a list) list \<Rightarrow> 'k \<Rightarrow> 'a \<Rightarrow> ('k \<times> 'a list) list" where
  "group_add [] k v = [(k, [v])]"
| "group_add ((k', g) # gs) k v =
     (if k' = k then (k', g @ [v]) # gs else (k', g) # group_add gs k v)"

definition groups :: "('a \<Rightarrow> 'k) \<Rightarrow> 'a list \<Rightarrow> ('k \<times> 'a list) list" where
  "groups keyof values = foldl (\<lambda>gs v. group_add gs (keyof v) v) [] values"

text \<open>\<^verbatim>\<open>d3.rollup\<close> with two keys: group by the first, each group by the second, then reduce.\<close>

definition rollup ::
  "'a list \<Rightarrow> ('a list \<Rightarrow> 'r) \<Rightarrow> ('a \<Rightarrow> 'k) \<Rightarrow> ('a \<Rightarrow> 'j) \<Rightarrow> ('k \<times> ('j \<times> 'r) list) list" where
  "rollup values reduce key1 key2 =
     map (\<lambda>(k, vs). (k, map (\<lambda>(j, ws). (j, reduce ws)) (groups key2 vs))) (groups key1 values)"

text \<open>
  \<^verbatim>\<open>d3.mean\<close> with an accessor: a value that is \<^verbatim>\<open>null\<close> or \<^verbatim>\<open>NaN\<close> is skipped, the others
  are counted and summed; the result is \<^verbatim>\<open>undefined\<close> (\<open>None\<close>) when nothing was counted.
  The counter is a natural number: an array has fewer than \<open>2 ^ 32\<close> elements, so the
  count is a double without rounding.
\<close>

fun mean_loop :: "nat \<Rightarrow> number \<Rightarrow> number option list \<Rightarrow> nat \<times> number" where
  "mean_loop count acc [] = (count, acc)"
| "mean_loop count acc (v # vs) =
     (case v of
        None \<Rightarrow> mean_loop count acc vs
      | Some x \<Rightarrow>
          if js_ge x x then mean_loop (Suc count) (js_add acc x) vs
          else mean_loop count acc vs)"

definition d3_mean :: "'a list \<Rightarrow> ('a \<Rightarrow> number option) \<Rightarrow> number option" where
  "d3_mean values valueof =
     (case mean_loop 0 (Num 0) (map valueof values) of
        (count, acc) \<Rightarrow>
          if count \<noteq> 0 then Some (js_div acc (Num (real count))) else None)"

text \<open>\<^verbatim>\<open>Array.from(new Set(xs))\<close>: the distinct elements, each at its first occurrence.\<close>

definition set_add :: "'a list \<Rightarrow> 'a \<Rightarrow> 'a list" where
  "set_add s x = (if x \<in> set s then s else s @ [x])"

definition set_from :: "'a list \<Rightarrow> 'a list" where
  "set_from xs = foldl set_add [] xs"

text \<open>
  \<^verbatim>\<open>Array.prototype.sort\<close> without a comparator: \<^verbatim>\<open>undefined\<close> goes last, the other
  elements are compared as strings, code unit by code unit, and the sort is stable.
\<close>

fun to_string :: "field \<Rightarrow> string" where
  "to_string Undefined = ''undefined''"
| "to_string Null = ''null''"
| "to_string (Str s) = s"

definition sort_rank :: "field \<Rightarrow> bool \<times> string" where
  "sort_rank v = (if v = Undefined then (True, []) else (False, to_string v))"

definition js_sort :: "field list \<Rightarrow> field list" where
  "js_sort xs = sort_key sort_rank xs"

section \<open>The grouped chart\<close>

text \<open>An entry of \<^verbatim>\<open>flatData\<close> and the datum of a bar. \<open>MeanValue\<close> is the field
  \<^verbatim>\<open>Value\<close>; it is \<open>None\<close> for \<^verbatim>\<open>undefined\<close>.\<close>

record datum =
  AgeGroup :: field
  Category :: field
  MeanValue :: "number option"

definition ageLayer :: "row list \<Rightarrow> row list" where
  "ageLayer b = filter (\<lambda>d. StratCat1 d = Str ''Age Group'') b"

definition dimLabel :: "string \<Rightarrow> string" where
  "dimLabel mode = (if mode = ''sex'' then ''Sex'' else ''Ethnicity'')"

text \<open>The callback of the ethnicity branch:
  \<^verbatim>\<open>d.StratCat2 && (d.StratCat2.includes("Race") || d.StratCat2.includes("Ethnic"))\<close>.\<close>

definition ethnicity_pred :: "row \<Rightarrow> error + bool" where
  "ethnicity_pred d =
     (if \<not> truthy (StratCat2 d) then Inr False
      else case js_includes (StratCat2 d) ''Race'' of
             Inl e \<Rightarrow> Inl e
           | Inr True \<Rightarrow> Inr True
           | Inr False \<Rightarrow> js_includes (StratCat2 d) ''Ethnic'')"

definition rows :: "string \<Rightarrow> row list \<Rightarrow> error + row list" where
  "rows mode b =
     (if mode = ''sex'' then Inr (filter (\<lambda>d. StratCat2 d = Str ''Sex'') (ageLayer b))
      else js_filter ethnicity_pred (ageLayer b))"

definition nested :: "row list \<Rightarrow> (field \<times> (field \<times> number option) list) list" where
  "nested rs = rollup rs (\<lambda>v. d3_mean v Value) Strat1 Strat2"

definition ageGroups :: "(field \<times> (field \<times> number option) list) list \<Rightarrow> field list" where
  "ageGroups n = js_sort (map fst n)"

definition categories :: "row list \<Rightarrow> field list" where
  "categories rs = js_sort (set_from (map Strat2 rs))"

definition flatData :: "(field \<times> (field \<times> number option) list) list \<Rightarrow> datum list" where
  "flatData n =
     concat (map (\<lambda>(age, catMap).
       map (\<lambda>(cat, val). \<lparr> AgeGroup = age, Category = cat, MeanValue = val \<rparr>) catMap) n)"

text \<open>The data bound to the rectangles: one list per age group, one datum per category.\<close>

definition bar :: "datum list \<Rightarrow> field \<Rightarrow> field \<Rightarrow> datum" where
  "bar fd age cat =
     (let found = find (\<lambda>d. AgeGroup d = age \<and> Category d = cat) fd
      in \<lparr> AgeGroup = age, Category = cat,
           MeanValue = (case found of Some f \<Rightarrow> MeanValue f | None \<Rightarrow> Some (Num 0)) \<rparr>)"

definition bars :: "field list \<Rightarrow> field list \<Rightarrow> datum list \<Rightarrow> datum list list" where
  "bars ags cats fd = map (\<lambda>age. map (\<lambda>cat. bar fd age cat) cats) ags"

text \<open>
  The tooltip of a bar calls \<^verbatim>\<open>d.Value.toFixed(2)\<close>, which raises a \<^verbatim>\<open>TypeError\<close> when the
  value is \<^verbatim>\<open>undefined\<close>. Only the number that is formatted is modelled, not its text.
\<close>

definition tooltip :: "datum \<Rightarrow> error + number" where
  "tooltip d = (case MeanValue d of None \<Rightarrow> Inl TypeError | Some v \<Rightarrow> Inr v)"

fun tooltips :: "datum list \<Rightarrow> error + number list" where
  "tooltips [] = Inr []"
| "tooltips (d # ds) =
     (case tooltip d of
        Inl e \<Rightarrow> Inl e
      | Inr v \<Rightarrow> (case tooltips ds of Inl e \<Rightarrow> Inl e | Inr vs \<Rightarrow> Inr (v # vs)))"

text \<open>
  What the SVG element holds. The scales are functions of the two domains and of the
  data; pixel positions, colours and the animation are not modelled. When a tooltip
  raises, the bars are in the document and the axes, title and legend are not.
\<close>

record chart =
  title_label :: string
  x0_domain :: "field list"
  x1_domain :: "field list"
  rects :: "datum list list"
  legend :: "field list"

datatype svg_content = Blank | Bars_only "datum list list" | Chart chart

text \<open>The two globals, \<^verbatim>\<open>window.__baseData__\<close> and \<^verbatim>\<open>window.__svg__\<close>.\<close>

record window =
  baseData :: "row list"
  svg :: svg_content

definition createSvg :: "window \<Rightarrow> window" where
  "createSvg w = w\<lparr> svg := Blank \<rparr>"

definition updateGroupedChart :: "string \<Rightarrow> window \<Rightarrow> error option \<times> window" where
  "updateGroupedChart mode w =
     (let b = baseData w in
      case rows mode b of
        Inl e \<Rightarrow> (Some e, w\<lparr> svg := Blank \<rparr>)
      | Inr rs \<Rightarrow>
          let n = nested rs;
              ags = ageGroups n;
              cats = categories rs;
              fd = flatData n;
              bs = bars ags cats fd
          in case tooltips (concat bs) of
               Inl e \<Rightarrow> (Some e, w\<lparr> svg := Bars_only bs \<rparr>)
             | Inr _ \<Rightarrow>
                 (None, w\<lparr> svg := Chart \<lparr> title_label = dimLabel mode, x0_domain = ags,
                     x1_domain = cats, rects = bs, legend = cats \<rparr> \<rparr>))"

text \<open>The callback of \<^verbatim>\<open>d3.csv(...).then\<close>: filter, cache, create the SVG, draw by sex.\<close>

definition on_load :: "csv_row list \<Rightarrow> error option \<times> window" where
  "on_load csv =
     (let w = \<lparr> baseData = base (map row_accessor csv), svg = Blank \<rparr>
      in updateGroupedChart ''sex'' (createSvg w))"

text \<open>A sequence of changes of the selector, each calling \<^verbatim>\<open>updateGroupedChart\<close>.\<close>

definition on_change :: "string \<Rightarrow> window \<Rightarrow> window" where
  "on_change v w = snd (updateGroupedChart v w)"

definition changes :: "string list \<Rightarrow> window \<Rightarrow> window" where
  "changes vs w = fold on_change vs w"

text \<open>
  The Dimension View: the rows the second filter returns. The filter never raises
  (\<open>rows_dimension_view\<close> below), so the other branch is never taken.
\<close>

definition dimension_view :: "string \<Rightarrow> row list \<Rightarrow> row list" where
  "dimension_view mode b = (case rows mode b of Inr rs \<Rightarrow> rs | Inl _ \<Rightarrow> [])"

text \<open>
  The Aggregate Table is \<^verbatim>\<open>nested\<close>, a map of maps; \<open>table_get\<close> reads it as
  \<^verbatim>\<open>nested.get(age)?.get(cat)\<close> does.
\<close>

definition table_get :: "('k \<times> ('j \<times> 'r) list) list \<Rightarrow> 'k \<Rightarrow> 'j \<Rightarrow> 'r option" where
  "table_get n k j = (case map_of n k of None \<Rightarrow> None | Some m \<Rightarrow> map_of m j)"

definition aggregate_table ::
  "string \<Rightarrow> window \<Rightarrow> (field \<times> (field \<times> number option) list) list" where
  "aggregate_table mode w = nested (dimension_view mode (baseData w))"

text \<open>The pair of keys each datum stands for.\<close>

definition pairs :: "datum list \<Rightarrow> (field \<times> field) list" where
  "pairs ds = map (\<lambda>d. (AgeGroup d, Category d)) ds"

section \<open>The specification's notions\<close>

text \<open>
  These follow the words of the specification, not the code: the rows that match an
  (age group, category) pair, their values, and the mean of a list of numbers, which is
  their sum over their count. The mean is taken in double arithmetic: the sum starts at
  0 and adds the values in list order, each sum rounded, and the quotient is rounded.
\<close>

definition matching :: "row list \<Rightarrow> field \<Rightarrow> field \<Rightarrow> row list" where
  "matching rs age cat = filter (\<lambda>d. Strat1 d = age \<and> Strat2 d = cat) rs"

definition values_of :: "row list \<Rightarrow> number list" where
  "values_of rs = List.map_filter Value rs"

definition double_mean :: "number list \<Rightarrow> number" where
  "double_mean xs = js_div (foldl js_add (Num 0) xs) (Num (real (length xs)))"

text \<open>The values that are numbers other than \<^verbatim>\<open>NaN\<close>, in order.\<close>

fun numeric :: "number option list \<Rightarrow> number list" where
  "numeric [] = []"
| "numeric (None # vs) = numeric vs"
| "numeric (Some x # vs) = (if x = NaN then numeric vs else x # numeric vs)"

section \<open>Example inputs\<close>

text \<open>A row of the survey file with class \<^verbatim>\<open>Cognitive Decline\<close> and a topic that is kept.\<close>

definition survey_row :: "string \<Rightarrow> string \<Rightarrow> string \<Rightarrow> string \<Rightarrow> string \<Rightarrow> csv_row" where
  "survey_row c1 s1 c2 s2 v =
     \<lparr> Class_col = Some ''Cognitive Decline'',
       Topic_col = Some ''Functional difficulties'',
       StratificationCategory1 = Some c1,
       Stratification1 = Some s1,
       StratificationCategory2 = Some c2,
       Stratification2 = Some s2,
       Data_Value = Some v \<rparr>"

text \<open>Two rows of one pair, the first with a value that is not a number.\<close>

definition nan_csv :: "csv_row list" where
  "nan_csv =
     [survey_row ''Age Group'' ''65+'' ''Sex'' ''Male'' ''abc'',
      survey_row ''Age Group'' ''65+'' ''Sex'' ''Male'' ''10'']"

text \<open>Two age groups and two categories, with rows for two of the four pairs only.\<close>

definition sparse_csv :: "csv_row list" where
  "sparse_csv =
     [survey_row ''Age Group'' ''65+'' ''Sex'' ''Male'' ''10'',
      survey_row ''Age Group'' ''65+'' ''Sex'' ''Male'' ''20'',
      survey_row ''Age Group'' ''50-64'' ''Sex'' ''Female'' ''30'']"

definition sex_row :: "string \<Rightarrow> string \<Rightarrow> number \<Rightarrow> row" where
  "sex_row age cat v =
     \<lparr> Class = Str ''Cognitive Decline'', Topic = Str ''Functional difficulties'',
       StratCat1 = Str ''Age Group'', Strat1 = Str age,
       StratCat2 = Str ''Sex'', Strat2 = Str cat, Value = Some v \<rparr>"

section \<open>Evaluating the examples\<close>

lemmas survey_row_simps = survey_row_def row_accessor_def property_def base_def base_pred_def
  excluded_topic_def

lemmas round_simps = round_double_def round_magnitude_def quantum_exponent_def floor_log2_def
  pow2_def round_half_even_def ilog2.simps js_add_def js_div_def signed_zero_def
  signed_infinity_def

lemmas to_number_simps = to_number_def trim_def is_white_space_def radix_prefix_def
  unsigned_decimal_def mantissa_def exponent_def nat_literal_def digit_of_def is_exp_char_def
  unary_plus_def round_simps

lemmas chart_simps = rows_def ageLayer_def nested_def rollup_def groups_def d3_mean_def
  table_get_def matching_def values_of_def double_mean_def flatData_def

lemma nan_view:
  "dimension_view ''sex'' (base (map row_accessor nan_csv)) =
     [sex_row ''65+'' ''Male'' NaN, sex_row ''65+'' ''Male'' (Num 10)]"
  by (simp add: nan_csv_def sex_row_def survey_row_simps to_number_simps dimension_view_def
      rows_def ageLayer_def)

lemma sparse_view:
  "dimension_view ''sex'' (base (map row_accessor sparse_csv)) =
     [sex_row ''65+'' ''Male'' (Num 10), sex_row ''65+'' ''Male'' (Num 20),
      sex_row ''50-64'' ''Female'' (Num 30)]"
  by (simp add: sparse_csv_def sex_row_def survey_row_simps to_number_simps dimension_view_def
      rows_def ageLayer_def)

section \<open>Rounding to a double\<close>

text \<open>
  The exponent \<open>floor_log2\<close> finds is the binary exponent of its argument, and the rounded
  magnitude is a multiple of the quantum at most half a quantum away.
\<close>

lemma ilog2_nonneg: "0 \<le> ilog2 n"
  by (induction n rule: ilog2.induct) (subst ilog2.simps, simp)

lemma ilog2_bounds: "1 \<le> n \<Longrightarrow> 2 ^ nat (ilog2 n) \<le> n \<and> n < 2 * 2 ^ nat (ilog2 n)"
proof (induction n rule: ilog2.induct)
  case (1 n)
  show ?case
  proof (cases "n \<le> 1")
    case True
    with "1.prems" have "n = 1" by simp
    then show ?thesis by (simp add: ilog2.simps)
  next
    case False
    then have h: "1 \<le> n div 2" by simp
    from "1.IH" [OF False h]
    have ih: "2 ^ nat (ilog2 (n div 2)) \<le> n div 2" "n div 2 < 2 * 2 ^ nat (ilog2 (n div 2))"
      by simp_all
    have "ilog2 n = 1 + ilog2 (n div 2)"
      using False by (subst ilog2.simps) simp
    then have e: "nat (ilog2 n) = Suc (nat (ilog2 (n div 2)))"
      using ilog2_nonneg [of "n div 2"] by simp
    show ?thesis unfolding e using ih by auto
  qed
qed

lemma ilog2_power2: "ilog2 (2 ^ k) = int k"
proof (induction k)
  case 0
  show ?case by (simp add: ilog2.simps)
next
  case (Suc k)
  have "\<not> (2 :: int) ^ Suc k \<le> 1" by (simp add: not_le) (smt (verit) one_le_power)
  then have "ilog2 (2 ^ Suc k) = 1 + ilog2 (2 ^ Suc k div 2)"
    by (subst ilog2.simps) simp
  with Suc show ?case by simp
qed

lemma floor_log2_bounds:
  assumes "0 < a"
  shows "pow2 (floor_log2 a) \<le> a \<and> a < 2 * pow2 (floor_log2 a)"
proof (cases "1 \<le> a")
  case True
  then have n: "1 \<le> \<lfloor>a\<rfloor>" by simp
  let ?k = "nat (ilog2 \<lfloor>a\<rfloor>)"
  from ilog2_bounds [OF n] have lo: "2 ^ ?k \<le> \<lfloor>a\<rfloor>" and hi: "\<lfloor>a\<rfloor> < 2 * 2 ^ ?k"
    by simp_all
  have "real_of_int (2 ^ ?k) \<le> of_int \<lfloor>a\<rfloor>" using lo by (rule of_int_le_iff [THEN iffD2])
  then have 1: "(2 :: real) ^ ?k \<le> a" by (simp add: le_floor_iff)
  have "\<lfloor>a\<rfloor> + 1 \<le> 2 * 2 ^ ?k" using hi by simp
  then have "real_of_int (\<lfloor>a\<rfloor> + 1) \<le> of_int (2 * 2 ^ ?k)" by (rule of_int_le_iff [THEN iffD2])
  then have "real_of_int \<lfloor>a\<rfloor> + 1 \<le> 2 * 2 ^ ?k" by simp
  moreover have "a < real_of_int \<lfloor>a\<rfloor> + 1" by linarith
  ultimately have 2: "a < 2 * (2 :: real) ^ ?k" by linarith
  show ?thesis
    using True 1 2 ilog2_nonneg [of "\<lfloor>a\<rfloor>"] by (simp add: floor_log2_def pow2_def)
next
  case False
  with assms have inv: "1 < 1 / a" by simp
  then have m: "1 \<le> \<lceil>1 / a\<rceil> - 1" by (simp add: less_ceiling_iff)
  let ?m = "\<lceil>1 / a\<rceil>"
  let ?k = "nat (ilog2 (?m - 1))"
  from ilog2_bounds [OF m] have lo: "2 ^ ?k \<le> ?m - 1" and hi: "?m - 1 < 2 * 2 ^ ?k"
    by simp_all
  have "?m \<le> 2 * 2 ^ ?k" using hi by simp
  then have "real_of_int ?m \<le> of_int (2 * 2 ^ ?k)" by (rule of_int_le_iff [THEN iffD2])
  then have "real_of_int ?m \<le> 2 * 2 ^ ?k" by simp
  moreover have "1 / a \<le> real_of_int ?m" by linarith
  ultimately have u: "1 / a \<le> 2 * 2 ^ ?k" by linarith
  have "real_of_int (2 ^ ?k) \<le> of_int (?m - 1)" using lo by (rule of_int_le_iff [THEN iffD2])
  then have "2 ^ ?k \<le> real_of_int ?m - 1" by simp
  moreover have "real_of_int ?m - 1 < 1 / a" by linarith
  ultimately have l: "2 ^ ?k < 1 / a" by linarith
  have 1: "1 / (2 * 2 ^ ?k) \<le> a"
    using u assms by (simp add: field_simps)
  have 2: "a < 1 / 2 ^ ?k"
    using l assms by (simp add: field_simps)
  have e: "floor_log2 a = - (1 + ilog2 (?m - 1))"
    using False m by (simp add: floor_log2_def)
  have p1: "pow2 (- (1 + ilog2 (?m - 1))) = 1 / (2 * 2 ^ ?k)"
    using ilog2_nonneg [of "?m - 1"] by (simp add: pow2_def nat_add_distrib)
  show ?thesis unfolding e p1 using 1 2 by simp
qed

lemma round_half_even_nearest: "\<bar>of_int (round_half_even y) - y\<bar> \<le> 1 / 2"
  unfolding round_half_even_def by (auto split: if_splits)

lemma js_add_overflows: "js_add (Num (2 ^ 1023)) (Num (2 ^ 1023)) = PosInf"
proof -
  have "floor_log2 (2 ^ 1024) = 1024"
    using ilog2_power2 [of 1024] by (simp add: floor_log2_def)
  then show ?thesis
    by (simp add: js_add_def round_double_def round_magnitude_def quantum_exponent_def pow2_def
        round_half_even_def signed_infinity_def)
qed

lemma pow2_pos: "0 < pow2 e"
  by (simp add: pow2_def)

lemma round_magnitude_nearest:
  "\<bar>round_magnitude a - a\<bar> \<le> pow2 (quantum_exponent a) / 2"
proof -
  let ?q = "pow2 (quantum_exponent a)"
  let ?n = "real_of_int (round_half_even (a / ?q))"
  have q: "0 < ?q" by (rule pow2_pos)
  have "\<bar>?n - a / ?q\<bar> * ?q \<le> 1 / 2 * ?q"
    using q by (intro mult_right_mono round_half_even_nearest) simp
  moreover have "\<bar>?n - a / ?q\<bar> * ?q = \<bar>(?n - a / ?q) * ?q\<bar>"
    using q by (simp add: abs_mult)
  moreover have "(?n - a / ?q) * ?q = round_magnitude a - a"
    using q by (simp add: round_magnitude_def left_diff_distrib)
  ultimately show ?thesis by simp
qed

text \<open>The mean of the doubles 0.1 and 0.2 is the double 0.15000000000000002.\<close>

lemma double_mean_rounds:
  "double_mean [to_number ''0.1'', to_number ''0.2''] = Num (1351079888211149 / 2 ^ 53)"
  by (simp add: double_mean_def to_number_simps)

section \<open>The filter stage\<close>

text \<open>
  Claim C2. A row is in the Filtered Base Set exactly when it is a raw row that passes the
  four tests at once: the class is \<^verbatim>\<open>Cognitive Decline\<close>, the topic is not the excluded one,
  the first stratification is not \<^verbatim>\<open>Overall\<close>, and the value is not \<^verbatim>\<open>null\<close>.
\<close>

theorem base_membership:
  "d \<in> set (base rs) \<longleftrightarrow>
     d \<in> set rs \<and> Class d = Str ''Cognitive Decline'' \<and> Topic d \<noteq> Str excluded_topic \<and>
     Strat1 d \<noteq> Str ''Overall'' \<and> Value d \<noteq> None"
  by (auto simp: base_def base_pred_def)

lemma to_number_abc: "to_number ''abc'' = NaN"
  by (simp add: to_number_def trim_def is_white_space_def radix_prefix_def
      unsigned_decimal_def mantissa_def nat_literal_def digit_of_def is_exp_char_def)

text \<open>
  Claim C5 as stated fails: the value \<^verbatim>\<open>abc\<close> does not parse as a number, and the row that
  carries it gets the value \<^verbatim>\<open>NaN\<close>, not \<^verbatim>\<open>null\<close>, and stays in the Filtered Base Set.
\<close>

theorem unparseable_value_kept:
  "to_number ''abc'' = NaN \<and>
   Value (row_accessor (survey_row ''Age Group'' ''65+'' ''Sex'' ''Male'' ''abc'')) = Some NaN \<and>
   base (map row_accessor [survey_row ''Age Group'' ''65+'' ''Sex'' ''Male'' ''abc'']) =
     [row_accessor (survey_row ''Age Group'' ''65+'' ''Sex'' ''Male'' ''abc'')]"
  by (simp add: survey_row_simps unary_plus_def to_number_abc)

text \<open>
  Claim C5, amended. The value of a row is \<^verbatim>\<open>null\<close> exactly when its \<^verbatim>\<open>Data_Value\<close> is the
  empty string, and is otherwise the number the unary plus gives; a row with an empty
  \<^verbatim>\<open>Data_Value\<close> is dropped, and no row of the Filtered Base Set has a \<^verbatim>\<open>null\<close> value.
\<close>

theorem empty_value_dropped:
  "Value (row_accessor d) =
     (if Data_Value d = Some [] then None else Some (unary_plus (Data_Value d))) \<and>
   (Data_Value d = Some [] \<longrightarrow> row_accessor d \<notin> set (base (map row_accessor csv))) \<and>
   (\<forall>r \<in> set (base (map row_accessor csv)). Value r \<noteq> None)"
  by (auto simp: row_accessor_def base_def base_pred_def)

theorem empty_value_dropped_witness:
  "Data_Value (survey_row ''Age Group'' ''65+'' ''Sex'' ''Male'' []) = Some [] \<and>
   Value (row_accessor (survey_row ''Age Group'' ''65+'' ''Sex'' ''Male'' [])) = None \<and>
   row_accessor (survey_row ''Age Group'' ''65+'' ''Sex'' ''Male'' []) \<notin>
     set (base (map row_accessor [survey_row ''Age Group'' ''65+'' ''Sex'' ''Male'' [],
                                  survey_row ''Age Group'' ''65+'' ''Sex'' ''Female'' ''abc''])) \<and>
   base (map row_accessor [survey_row ''Age Group'' ''65+'' ''Sex'' ''Male'' [],
                           survey_row ''Age Group'' ''65+'' ''Sex'' ''Female'' ''abc'']) \<noteq> [] \<and>
   row_accessor (survey_row ''Age Group'' ''65+'' ''Sex'' ''Female'' ''abc'') \<in>
     set (base (map row_accessor [survey_row ''Age Group'' ''65+'' ''Sex'' ''Male'' [],
                                  survey_row ''Age Group'' ''65+'' ''Sex'' ''Female'' ''abc''])) \<and>
   Value (row_accessor (survey_row ''Age Group'' ''65+'' ''Sex'' ''Female'' ''abc'')) \<noteq> None"
  using empty_value_dropped [of "survey_row ''Age Group'' ''65+'' ''Sex'' ''Male'' []"
      "[survey_row ''Age Group'' ''65+'' ''Sex'' ''Male'' [],
        survey_row ''Age Group'' ''65+'' ''Sex'' ''Female'' ''abc'']"]
  by (simp add: survey_row_simps)

section \<open>The Dimension View\<close>

lemma starts_with_iff: "starts_with s p \<longleftrightarrow> (\<exists>v. s = p @ v)"
  by (induction s p rule: starts_with.induct) auto

lemma string_includes_iff: "string_includes s p \<longleftrightarrow> (\<exists>u v. s = u @ p @ v)"
proof (induction s)
  case Nil
  then show ?case by auto
next
  case (Cons c cs)
  show ?case
  proof
    assume "string_includes (c # cs) p"
    then consider "starts_with (c # cs) p" | "string_includes cs p" by auto
    then show "\<exists>u v. c # cs = u @ p @ v"
    proof cases
      case 1
      then obtain v where "c # cs = p @ v" by (auto simp: starts_with_iff)
      then have "c # cs = [] @ p @ v" by simp
      then show ?thesis by blast
    next
      case 2
      then obtain u v where "cs = u @ p @ v" using Cons.IH by blast
      then have "c # cs = (c # u) @ p @ v" by simp
      then show ?thesis by blast
    qed
  next
    assume "\<exists>u v. c # cs = u @ p @ v"
    then obtain u v where uv: "c # cs = u @ p @ v" by blast
    show "string_includes (c # cs) p"
    proof (cases u)
      case Nil
      then have "starts_with (c # cs) p" using uv by (auto simp: starts_with_iff)
      then show ?thesis by simp
    next
      case (Cons a u')
      then have "cs = u' @ p @ v" using uv by simp
      then have "string_includes cs p" using Cons.IH by blast
      then show ?thesis by simp
    qed
  qed
qed

lemma js_filter_total:
  "(\<And>x. x \<in> set xs \<Longrightarrow> p x = Inr (q x)) \<Longrightarrow> js_filter p xs = Inr (filter q xs)"
  by (induction xs) auto

lemma ethnicity_pred_total:
  "ethnicity_pred d =
     Inr (\<exists>s. StratCat2 d = Str s \<and>
            (string_includes s ''Race'' \<or> string_includes s ''Ethnic''))"
  by (cases "StratCat2 d")
    (auto simp: ethnicity_pred_def js_includes_def split: bool.splits)

lemma rows_total:
  "rows mode b =
     Inr (filter (\<lambda>d. StratCat1 d = Str ''Age Group'' \<and>
       (if mode = ''sex'' then StratCat2 d = Str ''Sex''
        else \<exists>s. StratCat2 d = Str s \<and>
               (string_includes s ''Race'' \<or> string_includes s ''Ethnic''))) b)"
proof (cases "mode = ''sex''")
  case True
  then show ?thesis by (simp add: rows_def ageLayer_def)
next
  case False
  have "js_filter ethnicity_pred (ageLayer b) =
      Inr (filter (\<lambda>d. \<exists>s. StratCat2 d = Str s \<and>
             (string_includes s ''Race'' \<or> string_includes s ''Ethnic'')) (ageLayer b))"
    by (rule js_filter_total) (rule ethnicity_pred_total)
  with False show ?thesis by (simp add: rows_def ageLayer_def conj_commute)
qed

lemma rows_dimension_view: "rows mode b = Inr (dimension_view mode b)"
  by (simp add: dimension_view_def rows_total)

text \<open>
  Claim C3. The second filter never raises, and a row is in the Dimension View exactly when
  it is a row of the Filtered Base Set whose \<^verbatim>\<open>StratCat1\<close> is \<^verbatim>\<open>Age Group\<close> and whose
  \<^verbatim>\<open>StratCat2\<close> is \<^verbatim>\<open>Sex\<close> when the selector is \<^verbatim>\<open>sex\<close>, and is otherwise a string in which
  \<^verbatim>\<open>Race\<close> or \<^verbatim>\<open>Ethnic\<close> occurs.
\<close>

theorem dimension_view_membership:
  "rows mode b = Inr (dimension_view mode b) \<and>
   (d \<in> set (dimension_view mode b) \<longleftrightarrow>
      d \<in> set b \<and> StratCat1 d = Str ''Age Group'' \<and>
      (if mode = ''sex'' then StratCat2 d = Str ''Sex''
       else \<exists>s. StratCat2 d = Str s \<and>
              ((\<exists>u v. s = u @ ''Race'' @ v) \<or> (\<exists>u v. s = u @ ''Ethnic'' @ v))))"
  unfolding dimension_view_def rows_total string_includes_iff by auto

text \<open>
  Claim C10. In the ethnicity branch a row whose \<^verbatim>\<open>StratCat2\<close> is \<^verbatim>\<open>null\<close> or \<^verbatim>\<open>undefined\<close>
  makes the callback return false, where \<^verbatim>\<open>includes\<close> alone would raise; the filter returns
  and the row is not in the Dimension View.
\<close>

theorem ethnicity_guard_total:
  assumes "StratCat2 d = Null \<or> StratCat2 d = Undefined" and "mode \<noteq> ''sex''"
  shows "ethnicity_pred d = Inr False \<and>
    js_includes (StratCat2 d) ''Race'' = Inl TypeError \<and>
    rows mode b = Inr (dimension_view mode b) \<and> d \<notin> set (dimension_view mode b)"
  using assms unfolding dimension_view_def rows_total
  by (auto simp: ethnicity_pred_def js_includes_def)

theorem ethnicity_guard_total_witness:
  "StratCat2 (row_accessor ((survey_row ''Age Group'' ''65+'' [] ''Male'' ''10'')
      \<lparr> StratificationCategory2 := None \<rparr>)) = Undefined \<and>
   ethnicity_pred (row_accessor ((survey_row ''Age Group'' ''65+'' [] ''Male'' ''10'')
      \<lparr> StratificationCategory2 := None \<rparr>)) = Inr False \<and>
   rows ''ethnicity'' [row_accessor ((survey_row ''Age Group'' ''65+'' [] ''Male'' ''10'')
      \<lparr> StratificationCategory2 := None \<rparr>)] = Inr []"
  using ethnicity_guard_total [of "row_accessor ((survey_row ''Age Group'' ''65+'' [] ''Male'' ''10'')
      \<lparr> StratificationCategory2 := None \<rparr>)" "''ethnicity''"
      "[row_accessor ((survey_row ''Age Group'' ''65+'' [] ''Male'' ''10'')
      \<lparr> StratificationCategory2 := None \<rparr>)]"]
  by (simp add: survey_row_simps dimension_view_def rows_def ageLayer_def ethnicity_pred_def)

section \<open>Grouping and the mean\<close>

lemma map_of_group_add:
  "map_of (group_add gs k v) k' =
     (if k' = k then Some ((case map_of gs k of None \<Rightarrow> [] | Some g \<Rightarrow> g) @ [v])
      else map_of gs k')"
  by (induction gs k v rule: group_add.induct) auto

lemma keys_group_add: "map fst (group_add gs k v) = set_add (map fst gs) k"
  by (induction gs k v rule: group_add.induct) (auto simp: set_add_def)

lemma groups_snoc: "groups f (xs @ [x]) = group_add (groups f xs) (f x) x"
  by (simp add: groups_def)

lemma set_from_snoc: "set_from (xs @ [x]) = set_add (set_from xs) x"
  by (simp add: set_from_def)

lemma keys_groups: "map fst (groups f xs) = set_from (map f xs)"
proof (induction xs rule: rev_induct)
  case Nil
  show ?case by (simp add: groups_def set_from_def)
next
  case (snoc x xs)
  then show ?case by (simp add: groups_snoc set_from_snoc keys_group_add)
qed

lemma set_set_from: "set (set_from xs) = set xs"
  by (induction xs rule: rev_induct) (auto simp: set_from_snoc set_add_def set_from_def)

lemma distinct_set_from: "distinct (set_from xs)"
  by (induction xs rule: rev_induct) (auto simp: set_from_snoc set_add_def set_from_def)

lemma map_of_groups:
  "map_of (groups f xs) k =
     (if k \<in> f ` set xs then Some (filter (\<lambda>x. f x = k) xs) else None)"
proof (induction xs rule: rev_induct)
  case Nil
  show ?case by (simp add: groups_def)
next
  case (snoc x xs)
  have "filter (\<lambda>y. f y = f x) xs = []" if "f x \<notin> f ` set xs"
  proof -
    have "\<forall>y \<in> set xs. f y \<noteq> f x" using that by (metis imageI)
    then show ?thesis by (simp add: filter_empty_conv)
  qed
  with snoc show ?case by (auto simp: groups_snoc map_of_group_add)
qed

lemma keys_rollup: "map fst (rollup vs red k1 k2) = set_from (map k1 vs)"
  by (simp add: rollup_def keys_groups [symmetric] case_prod_unfold comp_def)

lemma distinct_keys_rollup: "distinct (map fst (rollup vs red k1 k2))"
  by (simp add: keys_rollup distinct_set_from)

lemma distinct_inner_rollup:
  "\<forall>(a, m) \<in> set (rollup vs red k1 k2). distinct (map fst m)"
proof -
  have "map fst (map (\<lambda>(j, ws). (j, red ws)) (groups k2 ws)) = set_from (map k2 ws)" for ws
    by (simp add: keys_groups [symmetric] case_prod_unfold comp_def)
  then show ?thesis by (auto simp: rollup_def distinct_set_from)
qed

lemma table_get_rollup:
  "table_get (rollup vs red k1 k2) a c =
     (if \<exists>x \<in> set vs. k1 x = a \<and> k2 x = c
      then Some (red (filter (\<lambda>x. k1 x = a \<and> k2 x = c) vs)) else None)"
proof -
  have "map_of (rollup vs red k1 k2) a =
      map_option (\<lambda>ws. map (\<lambda>(j, ws). (j, red ws)) (groups k2 ws)) (map_of (groups k1 vs) a)"
    by (simp add: rollup_def map_of_map)
  moreover have "map_of (map (\<lambda>(j, ws). (j, red ws)) (groups k2 ws)) c =
      map_option red (map_of (groups k2 ws) c)" for ws
    by (simp add: map_of_map)
  ultimately show ?thesis
    by (auto simp: table_get_def map_of_groups conj_commute)
qed

lemma js_ge_refl: "js_ge x x \<longleftrightarrow> x \<noteq> NaN"
  by (cases x) auto

lemma mean_loop_eq:
  "mean_loop c s vs = (c + length (numeric vs), foldl js_add s (numeric vs))"
proof (induction vs arbitrary: c s)
  case Nil
  show ?case by simp
next
  case (Cons v vs)
  then show ?case by (cases v) (simp_all add: js_ge_refl)
qed

lemma d3_mean_eq:
  "d3_mean values valueof =
     (let xs = numeric (map valueof values)
      in if xs = [] then None else Some (double_mean xs))"
  by (simp add: d3_mean_def mean_loop_eq double_mean_def Let_def)

lemma numeric_all:
  "\<forall>d \<in> set rs. Value d \<noteq> None \<and> Value d \<noteq> Some NaN \<Longrightarrow>
     numeric (map Value rs) = values_of rs"
  by (induction rs) (auto simp: values_of_def)

lemma values_of_nonempty: "r \<in> set rs \<Longrightarrow> Value r \<noteq> None \<Longrightarrow> values_of rs \<noteq> []"
  by (induction rs) (auto simp: values_of_def split: option.splits)

text \<open>
  Claim C1 as stated fails: of two rows of the pair (65+, Male) with the values \<^verbatim>\<open>NaN\<close> and
  10, the Aggregate Table holds 10, the mean of the second value alone, while the mean of
  the values of the two rows is \<^verbatim>\<open>NaN\<close>.
\<close>

theorem mean_skips_nan:
  "table_get (nested (dimension_view ''sex'' (base (map row_accessor nan_csv))))
      (Str ''65+'') (Str ''Male'') = Some (Some (Num 10)) \<and>
   values_of (matching (dimension_view ''sex'' (base (map row_accessor nan_csv)))
      (Str ''65+'') (Str ''Male'')) = [NaN, Num 10] \<and>
   double_mean (values_of (matching (dimension_view ''sex'' (base (map row_accessor nan_csv)))
      (Str ''65+'') (Str ''Male''))) = NaN"
  by (simp add: nan_view sex_row_def chart_simps round_simps)

text \<open>
  Claim C1, amended. For every (age group, category) pair present in the Dimension View,
  the value of the Aggregate Table for the pair is the mean, taken in double arithmetic
  (the values added to 0 in row order, each sum rounded to a double, and the total
  divided by the count and rounded), of exactly those values, of the rows of the
  Dimension View with that age group and that category, that are not \<^verbatim>\<open>NaN\<close>, and is
  \<^verbatim>\<open>undefined\<close> when all of them are \<^verbatim>\<open>NaN\<close>. When none of them is \<^verbatim>\<open>NaN\<close>, it is that mean
  of exactly the values of those rows.
\<close>

theorem aggregate_mean:
  assumes "r \<in> set (dimension_view mode b)"
  shows "table_get (nested (dimension_view mode b)) (Strat1 r) (Strat2 r) =
      Some (let xs = numeric (map Value
                (matching (dimension_view mode b) (Strat1 r) (Strat2 r)))
            in if xs = [] then None else Some (double_mean xs)) \<and>
    ((\<forall>d \<in> set (matching (dimension_view mode b) (Strat1 r) (Strat2 r)).
        Value d \<noteq> None \<and> Value d \<noteq> Some NaN) \<longrightarrow>
     table_get (nested (dimension_view mode b)) (Strat1 r) (Strat2 r) =
       Some (Some (double_mean
         (values_of (matching (dimension_view mode b) (Strat1 r) (Strat2 r))))))"
proof -
  let ?ms = "matching (dimension_view mode b) (Strat1 r) (Strat2 r)"
  have get: "table_get (nested (dimension_view mode b)) (Strat1 r) (Strat2 r) =
      Some (let xs = numeric (map Value ?ms)
            in if xs = [] then None else Some (double_mean xs))"
    using assms by (auto simp: nested_def table_get_rollup d3_mean_eq matching_def)
  have "table_get (nested (dimension_view mode b)) (Strat1 r) (Strat2 r) =
      Some (Some (double_mean (values_of ?ms)))"
    if num: "\<forall>d \<in> set ?ms. Value d \<noteq> None \<and> Value d \<noteq> Some NaN"
  proof -
    have eq: "numeric (map Value ?ms) = values_of ?ms"
      by (rule numeric_all) (use num in auto)
    have "r \<in> set ?ms" using assms by (simp add: matching_def)
    with num have "values_of ?ms \<noteq> []"
      by (intro values_of_nonempty [of r]) auto
    with get eq show ?thesis by simp
  qed
  with get show ?thesis by blast
qed

theorem aggregate_mean_witness:
  "sex_row ''65+'' ''Male'' (Num 10) \<in>
     set (dimension_view ''sex'' (base (map row_accessor sparse_csv))) \<and>
   values_of (matching (dimension_view ''sex'' (base (map row_accessor sparse_csv)))
      (Str ''65+'') (Str ''Male'')) = [Num 10, Num 20] \<and>
   table_get (nested (dimension_view ''sex'' (base (map row_accessor sparse_csv))))
      (Str ''65+'') (Str ''Male'') = Some (Some (Num 15))"
  using aggregate_mean [of "sex_row ''65+'' ''Male'' (Num 10)" "''sex''"
      "base (map row_accessor sparse_csv)"]
  by (simp add: sparse_view sex_row_def matching_def values_of_def double_mean_def round_simps)

section \<open>The axis domains\<close>

lemma ageGroups_nested: "ageGroups (nested rs) = js_sort (set_from (map Strat1 rs))"
  by (simp add: ageGroups_def nested_def keys_rollup)

lemma distinct_ageGroups: "distinct (ageGroups (nested rs))"
  by (simp add: ageGroups_nested js_sort_def distinct_set_from)

lemma distinct_categories: "distinct (categories rs)"
  by (simp add: categories_def js_sort_def distinct_set_from)

lemma sorted_rank_strings:
  "sorted (map sort_rank xs) \<Longrightarrow>
     sorted (map to_string (filter (\<lambda>v. v \<noteq> Undefined) xs)) \<and>
     xs = filter (\<lambda>v. v \<noteq> Undefined) xs @ filter (\<lambda>v. v = Undefined) xs"
proof (induction xs)
  case Nil
  show ?case by simp
next
  case (Cons x xs)
  then have ih: "sorted (map to_string (filter (\<lambda>v. v \<noteq> Undefined) xs))"
    "xs = filter (\<lambda>v. v \<noteq> Undefined) xs @ filter (\<lambda>v. v = Undefined) xs"
    and le: "\<forall>y \<in> set xs. sort_rank x \<le> sort_rank y"
    by simp_all
  show ?case
  proof (cases "x = Undefined")
    case True
    with le have "\<forall>y \<in> set xs. y = Undefined"
      by (auto simp: sort_rank_def split: if_splits)
    then have "filter (\<lambda>v. v \<noteq> Undefined) xs = []"
      by (auto simp: filter_empty_conv)
    with True ih show ?thesis by simp
  next
    case False
    with le have "\<forall>y \<in> set xs. y \<noteq> Undefined \<longrightarrow> to_string x \<le> to_string y"
      by (auto simp: sort_rank_def split: if_splits)
    with False ih show ?thesis by auto
  qed
qed

text \<open>
  Claim C7. The age groups are the distinct \<^verbatim>\<open>Strat1\<close> values of the rows left after the
  filters, that is of the Dimension View, and the categories are its distinct \<^verbatim>\<open>Strat2\<close>
  values, both sorted by the default sort: each list has no duplicates, holds exactly the
  values present, and has its strings in plain lexicographic order, with \<^verbatim>\<open>undefined\<close>
  (the key of a row whose column is missing) last.
\<close>

theorem axis_domains_sorted:
  "ageGroups (nested (dimension_view mode b)) =
     js_sort (set_from (map Strat1 (dimension_view mode b))) \<and>
   categories (dimension_view mode b) =
     js_sort (set_from (map Strat2 (dimension_view mode b))) \<and>
   set (ageGroups (nested (dimension_view mode b))) = Strat1 ` set (dimension_view mode b) \<and>
   set (categories (dimension_view mode b)) = Strat2 ` set (dimension_view mode b) \<and>
   distinct (ageGroups (nested (dimension_view mode b))) \<and>
   distinct (categories (dimension_view mode b)) \<and>
   sorted (map to_string
     (filter (\<lambda>v. v \<noteq> Undefined) (ageGroups (nested (dimension_view mode b))))) \<and>
   sorted (map to_string
     (filter (\<lambda>v. v \<noteq> Undefined) (categories (dimension_view mode b)))) \<and>
   ageGroups (nested (dimension_view mode b)) =
     filter (\<lambda>v. v \<noteq> Undefined) (ageGroups (nested (dimension_view mode b))) @
     filter (\<lambda>v. v = Undefined) (ageGroups (nested (dimension_view mode b))) \<and>
   categories (dimension_view mode b) =
     filter (\<lambda>v. v \<noteq> Undefined) (categories (dimension_view mode b)) @
     filter (\<lambda>v. v = Undefined) (categories (dimension_view mode b))"
proof -
  have s: "sorted (map sort_rank (js_sort xs))" for xs
    by (simp add: js_sort_def)
  have a: "sorted (map to_string (filter (\<lambda>v. v \<noteq> Undefined) (js_sort xs)))"
    and b: "js_sort xs = filter (\<lambda>v. v \<noteq> Undefined) (js_sort xs) @
        filter (\<lambda>v. v = Undefined) (js_sort xs)" for xs
    using sorted_rank_strings [OF s] by blast+
  have c: "set (js_sort (set_from xs)) = set xs"
    and d: "distinct (js_sort (set_from xs))" for xs
    by (simp_all add: js_sort_def set_set_from distinct_set_from)
  show ?thesis
    unfolding ageGroups_nested categories_def
    using a b c d by auto
qed

section \<open>The flat data and the bars\<close>

lemma pairs_bars: "pairs (concat (bars ags cats fd)) = List.product ags cats"
  by (induction ags) (simp_all add: pairs_def bars_def bar_def comp_def)

lemma length_bars: "length (concat (bars ags cats fd)) = length ags * length cats"
  using arg_cong [OF pairs_bars, of length ags cats fd] by (simp add: pairs_def)

lemma pairs_flatData:
  "pairs (flatData n) = concat (map (\<lambda>(a, m). map (\<lambda>(c, v). (a, c)) m) n)"
  by (induction n) (auto simp: pairs_def flatData_def case_prod_unfold comp_def)

lemma distinct_pairs_flatData:
  "distinct (map fst n) \<Longrightarrow> (\<forall>(a, m) \<in> set n. distinct (map fst m)) \<Longrightarrow>
     distinct (pairs (flatData n))"
proof (induction n)
  case Nil
  show ?case by (simp add: pairs_flatData)
next
  case (Cons p n)
  obtain a m where p: "p = (a, m)" by (cases p)
  have d1: "distinct (map (\<lambda>(c, v). (a, c)) m)"
  proof -
    have "distinct (map fst m)" using Cons.prems p by simp
    then have "distinct (map (Pair a) (map fst m))"
      by (simp add: distinct_map inj_on_def)
    then show ?thesis by (simp add: case_prod_unfold comp_def)
  qed
  have d2: "distinct (pairs (flatData n))" using Cons by simp
  have "fst ` set (pairs (flatData n)) \<subseteq> fst ` set n"
    by (force simp: pairs_flatData)
  moreover have "a \<notin> fst ` set n" using Cons.prems p by simp
  ultimately have d3: "set (map (\<lambda>(c, v). (a, c)) m) \<inter> set (pairs (flatData n)) = {}"
    by force
  show ?case using d1 d2 d3 p by (simp add: pairs_flatData)
qed

lemma in_pairs_flatData:
  "distinct (map fst n) \<Longrightarrow>
     (a, c) \<in> set (pairs (flatData n)) \<longleftrightarrow> table_get n a c \<noteq> None"
proof -
  assume d: "distinct (map fst n)"
  have "(a, c) \<in> set (pairs (flatData n)) \<longleftrightarrow> (\<exists>m. (a, m) \<in> set n \<and> c \<in> fst ` set m)"
    by (force simp: pairs_flatData)
  also have "\<dots> \<longleftrightarrow> (\<exists>m. map_of n a = Some m \<and> map_of m c \<noteq> None)"
    using d by (simp add: map_of_eq_None_iff)
  also have "\<dots> \<longleftrightarrow> table_get n a c \<noteq> None"
    by (auto simp: table_get_def split: option.splits)
  finally show ?thesis .
qed

lemma set_pairs_nested:
  "set (pairs (flatData (nested rs))) = (\<lambda>r. (Strat1 r, Strat2 r)) ` set rs"
proof -
  have "p \<in> set (pairs (flatData (nested rs))) \<longleftrightarrow>
      p \<in> (\<lambda>r. (Strat1 r, Strat2 r)) ` set rs" for p
  proof (cases p)
    case (Pair a c)
    then show ?thesis
      unfolding nested_def Pair in_pairs_flatData [OF distinct_keys_rollup] table_get_rollup
      by auto
  qed
  then show ?thesis by blast
qed

lemma distinct_pairs_nested: "distinct (pairs (flatData (nested rs)))"
  unfolding nested_def
  by (rule distinct_pairs_flatData [OF distinct_keys_rollup distinct_inner_rollup])

lemma length_flatData_le:
  "length (flatData (nested rs)) \<le> length (ageGroups (nested rs)) * length (categories rs)"
proof -
  have "length (flatData (nested rs)) = card (set (pairs (flatData (nested rs))))"
    using distinct_card [OF distinct_pairs_nested, of rs] by (simp add: pairs_def)
  also have "\<dots> \<le> card (Strat1 ` set rs \<times> Strat2 ` set rs)"
    by (rule card_mono) (auto simp: set_pairs_nested)
  also have "\<dots> = card (set (ageGroups (nested rs))) * card (set (categories rs))"
    by (simp add: card_cartesian_product ageGroups_nested categories_def js_sort_def
        set_set_from)
  also have "\<dots> = length (ageGroups (nested rs)) * length (categories rs)"
    by (simp add: distinct_card distinct_ageGroups distinct_categories)
  finally show ?thesis .
qed

lemma find_flatData_None:
  "matching rs age cat = [] \<Longrightarrow>
     find (\<lambda>d. AgeGroup d = age \<and> Category d = cat) (flatData (nested rs)) = None"
proof -
  assume "matching rs age cat = []"
  then have "(age, cat) \<notin> (\<lambda>r. (Strat1 r, Strat2 r)) ` set rs"
    by (auto simp: matching_def filter_empty_conv)
  then have "(age, cat) \<notin> set (pairs (flatData (nested rs)))"
    by (simp add: set_pairs_nested)
  then show ?thesis by (force simp: find_None_iff pairs_def)
qed

lemma filter_eq_distinct: "distinct xs \<Longrightarrow> x \<in> set xs \<Longrightarrow> filter (\<lambda>y. y = x) xs = [x]"
  by (induction xs) (auto simp: filter_empty_conv)

lemma filter_bars:
  assumes "distinct ags" "distinct cats" "age \<in> set ags" "cat \<in> set cats"
  shows "filter (\<lambda>d. AgeGroup d = age \<and> Category d = cat) (concat (bars ags cats fd)) =
     [bar fd age cat]"
proof -
  have row: "filter (\<lambda>d. AgeGroup d = age \<and> Category d = cat) (map (\<lambda>c. bar fd a c) cats) =
      (if a = age then [bar fd age cat] else [])" for a
  proof -
    have "filter (\<lambda>d. AgeGroup d = age \<and> Category d = cat) (map (\<lambda>c. bar fd a c) cats) =
        map (\<lambda>c. bar fd a c) (filter (\<lambda>c. a = age \<and> c = cat) cats)"
      by (simp add: filter_map comp_def bar_def)
    also have "\<dots> = (if a = age then [bar fd age cat] else [])"
      using filter_eq_distinct [OF assms(2,4)] by simp
    finally show ?thesis .
  qed
  have "filter (\<lambda>d. AgeGroup d = age \<and> Category d = cat) (concat (bars ags cats fd)) =
      concat (map (\<lambda>a. if a = age then [bar fd age cat] else []) ags)"
    by (simp add: bars_def filter_concat comp_def row)
  also have "\<dots> = concat (map (\<lambda>a. [bar fd age cat]) (filter (\<lambda>a. a = age) ags))"
    by (induction ags) auto
  also have "\<dots> = [bar fd age cat]"
    using filter_eq_distinct [OF assms(1,3)] by simp
  finally show ?thesis .
qed

text \<open>
  Claim C4 as stated fails for \<^verbatim>\<open>flatData\<close>: with rows for two of the four pairs of two age
  groups and two categories, \<^verbatim>\<open>flatData\<close> has two entries, not four.
\<close>

theorem flatData_sparse:
  "length (flatData (nested (dimension_view ''sex'' (base (map row_accessor sparse_csv))))) = 2 \<and>
   length (ageGroups (nested (dimension_view ''sex'' (base (map row_accessor sparse_csv))))) *
   length (categories (dimension_view ''sex'' (base (map row_accessor sparse_csv)))) = 4"
  by (simp add: sparse_view sex_row_def chart_simps ageGroups_def categories_def js_sort_def
      set_from_def set_add_def)

text \<open>
  Claim C4, amended. The data bound to the bars have exactly |ageGroups| \<times> |categories|
  entries, one per (age group, category) pair, in the order of the two axes. \<^verbatim>\<open>flatData\<close>
  has exactly one entry per pair present in the Dimension View, and so at most as many.
\<close>

theorem bars_complete:
  "pairs (concat (bars (ageGroups (nested (dimension_view mode b)))
       (categories (dimension_view mode b)) (flatData (nested (dimension_view mode b))))) =
     List.product (ageGroups (nested (dimension_view mode b)))
       (categories (dimension_view mode b)) \<and>
   length (concat (bars (ageGroups (nested (dimension_view mode b)))
       (categories (dimension_view mode b)) (flatData (nested (dimension_view mode b))))) =
     length (ageGroups (nested (dimension_view mode b))) *
     length (categories (dimension_view mode b)) \<and>
   distinct (pairs (flatData (nested (dimension_view mode b)))) \<and>
   set (pairs (flatData (nested (dimension_view mode b)))) =
     (\<lambda>r. (Strat1 r, Strat2 r)) ` set (dimension_view mode b) \<and>
   length (flatData (nested (dimension_view mode b))) \<le>
     length (ageGroups (nested (dimension_view mode b))) *
     length (categories (dimension_view mode b))"
  by (simp add: pairs_bars length_bars distinct_pairs_nested set_pairs_nested
      length_flatData_le)

text \<open>
  Claim C6. For an age group and a category of the two axes with no row of the Dimension
  View between them, the data bound to the bars hold exactly one datum for the pair, its
  value is 0, and its tooltip does not raise.
\<close>

theorem absent_pair_zero:
  assumes "age \<in> set (ageGroups (nested (dimension_view mode b)))"
    and "cat \<in> set (categories (dimension_view mode b))"
    and "matching (dimension_view mode b) age cat = []"
  shows "filter (\<lambda>d. AgeGroup d = age \<and> Category d = cat)
        (concat (bars (ageGroups (nested (dimension_view mode b)))
           (categories (dimension_view mode b))
           (flatData (nested (dimension_view mode b))))) =
      [\<lparr> AgeGroup = age, Category = cat, MeanValue = Some (Num 0) \<rparr>] \<and>
    tooltip \<lparr> AgeGroup = age, Category = cat, MeanValue = Some (Num 0) \<rparr> = Inr (Num 0)"
proof -
  let ?rs = "dimension_view mode b"
  have "bar (flatData (nested ?rs)) age cat =
      \<lparr> AgeGroup = age, Category = cat, MeanValue = Some (Num 0) \<rparr>"
    by (simp add: bar_def find_flatData_None [OF assms(3)])
  then show ?thesis
    using filter_bars [OF distinct_ageGroups distinct_categories assms(1,2),
        of "flatData (nested ?rs)"]
    by (simp add: tooltip_def)
qed

theorem absent_pair_zero_witness:
  "Str ''65+'' \<in> set (ageGroups (nested (dimension_view ''sex''
      (base (map row_accessor sparse_csv))))) \<and>
   Str ''Female'' \<in> set (categories (dimension_view ''sex''
      (base (map row_accessor sparse_csv)))) \<and>
   matching (dimension_view ''sex'' (base (map row_accessor sparse_csv)))
      (Str ''65+'') (Str ''Female'') = [] \<and>
   filter (\<lambda>d. AgeGroup d = Str ''65+'' \<and> Category d = Str ''Female'')
     (concat (bars (ageGroups (nested (dimension_view ''sex''
          (base (map row_accessor sparse_csv)))))
        (categories (dimension_view ''sex'' (base (map row_accessor sparse_csv))))
        (flatData (nested (dimension_view ''sex'' (base (map row_accessor sparse_csv))))))) =
     [\<lparr> AgeGroup = Str ''65+'', Category = Str ''Female'', MeanValue = Some (Num 0) \<rparr>]"
  using absent_pair_zero [of "Str ''65+''" "''sex''" "base (map row_accessor sparse_csv)"
      "Str ''Female''"]
  by (simp add: sparse_view sex_row_def matching_def ageGroups_nested categories_def
      js_sort_def set_set_from)

section \<open>Changing the dimension\<close>

lemma updateGroupedChart_baseData: "baseData (snd (updateGroupedChart mode w)) = baseData w"
  by (simp add: updateGroupedChart_def Let_def split: sum.splits)

lemma on_change_baseData: "baseData (on_change v w) = baseData w"
  by (simp add: on_change_def updateGroupedChart_baseData)

lemma changes_baseData: "baseData (changes vs w) = baseData w"
  unfolding changes_def by (induction vs arbitrary: w) (simp_all add: on_change_baseData)

lemma window_svg_update:
  "baseData w' = baseData w \<Longrightarrow> (w' :: window)\<lparr> svg := s \<rparr> = w\<lparr> svg := s \<rparr>"
  by (cases w; cases w') simp

lemma updateGroupedChart_cong:
  assumes "baseData w' = baseData w"
  shows "updateGroupedChart mode (w' :: window) = updateGroupedChart mode w"
  by (simp only: updateGroupedChart_def assms window_svg_update [OF assms])

text \<open>What \<^verbatim>\<open>updateGroupedChart\<close> draws, in terms of the Dimension View.\<close>

lemma updateGroupedChart_draws:
  "updateGroupedChart mode w =
     (let rs = dimension_view mode (baseData w);
          bs = bars (ageGroups (nested rs)) (categories rs) (flatData (nested rs))
      in case tooltips (concat bs) of
           Inl e \<Rightarrow> (Some e, w\<lparr> svg := Bars_only bs \<rparr>)
         | Inr _ \<Rightarrow>
             (None, w\<lparr> svg := Chart \<lparr> title_label = dimLabel mode,
                 x0_domain = ageGroups (nested rs), x1_domain = categories rs,
                 rects = bs, legend = categories rs \<rparr> \<rparr>))"
  by (simp add: updateGroupedChart_def rows_dimension_view Let_def)

text \<open>
  Claim C8. After the chart is drawn for a mode and then for another mode, the Aggregate
  Table computed for the first mode is the one computed at first, and so is the whole
  outcome of drawing for the first mode again.
\<close>

theorem toggle_back_same_table:
  "aggregate_table m (on_change m' (on_change m w)) = aggregate_table m w \<and>
   updateGroupedChart m (on_change m' (on_change m w)) = updateGroupedChart m w"
proof -
  have "baseData (on_change m' (on_change m w)) = baseData w"
    by (simp add: on_change_baseData)
  then show ?thesis
    using updateGroupedChart_cong [of "on_change m' (on_change m w)" w m]
    by (simp add: aggregate_table_def)
qed

text \<open>
  Claim C9. \<^verbatim>\<open>updateGroupedChart\<close> leaves the cached base set as it is, whether it returns
  or raises, so after any sequence of changes of the selector the base set is the one
  computed at load; what it draws is computed from that base set and the mode alone.
\<close>

theorem base_set_unchanged:
  "baseData (snd (updateGroupedChart mode w)) = baseData w \<and>
   baseData (changes vs w) = baseData w \<and>
   baseData (changes vs (snd (on_load csv))) = base (map row_accessor csv) \<and>
   updateGroupedChart mode (changes vs w) = updateGroupedChart mode w"
  using updateGroupedChart_cong [of "changes vs w" w mode]
  by (simp add: updateGroupedChart_baseData changes_baseData on_load_def createSvg_def)

end
